theory Spec2Isabelle
  imports Main "HOL-Library.AList"
begin

section \<open>JavaScript values\<close>

text \<open>
  The store is a \<^verbatim>\<open>Record<string, any>\<close> and every editor seeds its state from it, so
  what flows through the program are untyped JavaScript values.  An object is the list of
  its own enumerable properties in insertion order, \<open>JBuiltin f\<close> is the built-in
  function named \<open>f\<close>.  Numbers are restricted to the integers, strings to sequences of
  8-bit characters.
\<close>

datatype jsval =
    JUndefined
  | JNull
  | JBool bool
  | JNum int
  | JStr string
  | JArr "jsval list"
  | JObj "(string \<times> jsval) list"
  | JBuiltin string

text \<open>ToBoolean.\<close>

fun truthy :: "jsval \<Rightarrow> bool" where
  "truthy JUndefined = False"
| "truthy JNull = False"
| "truthy (JBool b) = b"
| "truthy (JNum n) = (n \<noteq> 0)"
| "truthy (JStr s) = (s \<noteq> [])"
| "truthy (JArr xs) = True"
| "truthy (JObj ps) = True"
| "truthy (JBuiltin f) = True"

text \<open>The operator \<^verbatim>\<open>a || b\<close>.\<close>

definition js_or :: "jsval \<Rightarrow> jsval \<Rightarrow> jsval" where
  "js_or a b = (if truthy a then a else b)"

text \<open>
  What an object literal inherits from \<^verbatim>\<open>Object.prototype\<close>: the methods, and the
  accessor \<^verbatim>\<open>__proto__\<close>, which returns \<^verbatim>\<open>Object.prototype\<close> itself, an object without
  enumerable properties.  A read \<^verbatim>\<open>o[k]\<close> that finds no own property \<open>k\<close> continues
  there.
\<close>

definition Object_prototype :: "string \<Rightarrow> jsval option" where
  "Object_prototype k =
     (if k = ''constructor'' then Some (JBuiltin ''Object'')
      else if k \<in> set [''hasOwnProperty'', ''isPrototypeOf'', ''propertyIsEnumerable'',
                        ''toLocaleString'', ''toString'', ''valueOf'', ''__defineGetter__'',
                        ''__defineSetter__'', ''__lookupGetter__'', ''__lookupSetter__'']
      then Some (JBuiltin k)
      else if k = ''__proto__'' then Some (JObj [])
      else None)"

text \<open>\<^verbatim>\<open>o[k]\<close> for an object \<open>o\<close> given by its own properties.\<close>

definition obj_get :: "(string \<times> jsval) list \<Rightarrow> string \<Rightarrow> jsval" where
  "obj_get ps k =
     (case map_of ps k of
        Some v \<Rightarrow> v
      | None \<Rightarrow> (case Object_prototype k of Some b \<Rightarrow> b | None \<Rightarrow> JUndefined))"

text \<open>
  \<^verbatim>\<open>v.k\<close> for any value.  The program reads properties only from values it has tested to
  be truthy or has guarded by \<^verbatim>\<open>?.\<close>, so the read never throws; and the names it reads
  from values that may not be plain objects (\<open>jenkinsfile\<close>, \<open>dockerfile\<close>, \<open>vars\<close>,
  \<open>settings\<close>, the names of the buffers and of the settings) are defined on no built-in
  prototype, so that such a read yields \<^verbatim>\<open>undefined\<close>.
\<close>

fun js_get :: "jsval \<Rightarrow> string \<Rightarrow> jsval" where
  "js_get (JObj ps) k = obj_get ps k"
| "js_get v k = JUndefined"

text \<open>\<^verbatim>\<open>v?.k\<close>.\<close>

definition js_opt_get :: "jsval \<Rightarrow> string \<Rightarrow> jsval" where
  "js_opt_get v k = (if v = JUndefined \<or> v = JNull then JUndefined else js_get v k)"

text \<open>Number to string, for the integers.\<close>

definition digit_char :: "nat \<Rightarrow> char" where
  "digit_char d = (if d < 10 then ''0123456789'' ! d else CHR ''?'')"

fun show_nat :: "nat \<Rightarrow> string" where
  "show_nat n =
     (if n < 10 then [digit_char n] else show_nat (n div 10) @ [digit_char (n mod 10)])"

definition show_int :: "int \<Rightarrow> string" where
  "show_int i = (if i < 0 then CHR ''-'' # show_nat (nat (- i)) else show_nat (nat i))"

text \<open>\<^verbatim>\<open>Array.prototype.join\<close> on the strings of the elements.\<close>

fun join :: "string \<Rightarrow> string list \<Rightarrow> string" where
  "join sep [] = []"
| "join sep [x] = x"
| "join sep (x # y # ys) = x @ sep @ join sep (y # ys)"

text \<open>
  ToString, as a template literal applies it to an interpolated value.  An object converts
  as \<^verbatim>\<open>Object.prototype.toString\<close> does (no object of this program overrides it), a
  built-in function to the text V8 prints for it.
\<close>

fun to_string :: "jsval \<Rightarrow> string" where
  "to_string JUndefined = ''undefined''"
| "to_string JNull = ''null''"
| "to_string (JBool b) = (if b then ''true'' else ''false'')"
| "to_string (JNum n) = show_int n"
| "to_string (JStr s) = s"
| "to_string (JArr xs) =
     join '','' (map (\<lambda>x. if x = JUndefined \<or> x = JNull then [] else to_string x) xs)"
| "to_string (JObj ps) = ''[object Object]''"
| "to_string (JBuiltin f) = ''function '' @ f @ ''() { [native code] }''"

text \<open>
  The own enumerable properties an object spread \<^verbatim>\<open>{...v}\<close> copies: those of an object,
  the indexed elements of an array or of a string, none of any other value.
\<close>

fun indexed :: "nat \<Rightarrow> jsval list \<Rightarrow> (string \<times> jsval) list" where
  "indexed i [] = []"
| "indexed i (x # xs) = (show_nat i, x) # indexed (Suc i) xs"

fun spread :: "jsval \<Rightarrow> (string \<times> jsval) list" where
  "spread (JObj ps) = ps"
| "spread (JArr xs) = indexed 0 xs"
| "spread (JStr s) = indexed 0 (map (\<lambda>c. JStr [c]) s)"
| "spread v = []"

text \<open>
  \<^verbatim>\<open>{ ...prev, [k]: v }\<close>: the computed key defines an own property, in place when
  \<open>prev\<close> has the key and at the end otherwise.
\<close>

definition set_prop :: "jsval \<Rightarrow> string \<Rightarrow> jsval \<Rightarrow> jsval" where
  "set_prop prev k v = JObj (AList.update k v (spread prev))"


section \<open>JavaScript strings\<close>

text \<open>\<^verbatim>\<open>s.startsWith(p)\<close> and \<^verbatim>\<open>s.includes(p)\<close>.\<close>

fun starts_with :: "string \<Rightarrow> string \<Rightarrow> bool" where
  "starts_with s [] = True"
| "starts_with [] (p # ps) = False"
| "starts_with (c # cs) (p # ps) = (if c = p then starts_with cs ps else False)"


text \<open>\<^verbatim>\<open>s.split(sep)\<close> for a separator of one character; the result is never empty.\<close>

fun split :: "string \<Rightarrow> char \<Rightarrow> string list" where
  "split [] sep = [[]]"
| "split (c # cs) sep =
     (if c = sep then [] # split cs sep
      else (case split cs sep of [] \<Rightarrow> [[c]] | x # xs \<Rightarrow> (c # x) # xs))"

text \<open>\<^verbatim>\<open>s.toUpperCase()\<close>, on the ASCII letters.\<close>

definition toUpperCase :: "string \<Rightarrow> string" where
  "toUpperCase s =
     map (\<lambda>c. case map_of (zip ''abcdefghijklmnopqrstuvwxyz'' ''ABCDEFGHIJKLMNOPQRSTUVWXYZ'') c of
                 Some u \<Rightarrow> u
               | None \<Rightarrow> c) s"

text \<open>
  GetSubstitution: the text a replacement string stands for at one match.  \<^verbatim>\<open>$$\<close>
  is a dollar sign, \<^verbatim>\<open>$&\<close> the matched text, \<^verbatim>\<open>$`\<close> the text before the match and
  \<^verbatim>\<open>$'\<close> the text after it.  No pattern of this program has a capture group, so
  \<^verbatim>\<open>$1\<close> and the like stand for themselves.
\<close>

fun GetSubstitution :: "string \<Rightarrow> string \<Rightarrow> string \<Rightarrow> string \<Rightarrow> string" where
  "GetSubstitution matched pre post [] = []"
| "GetSubstitution matched pre post [c] = [c]"
| "GetSubstitution matched pre post (c # d # r) =
     (if c = CHR ''$'' \<and> d = CHR ''$'' then CHR ''$'' # GetSubstitution matched pre post r
      else if c = CHR ''$'' \<and> d = CHR ''&'' then matched @ GetSubstitution matched pre post r
      else if c = CHR ''$'' \<and> d = CHR 0x60 then pre @ GetSubstitution matched pre post r
      else if c = CHR ''$'' \<and> d = CHR 0x27 then post @ GetSubstitution matched pre post r
      else c # GetSubstitution matched pre post (d # r))"

text \<open>
  The regular expressions of this program are sequences of single characters and
  character classes, each taken once or under a quantifier, and the assertion \<^verbatim>\<open>$\<close>
  under the flag \<open>m\<close>: \<open>Lit c\<close> is the character \<open>c\<close>, \<open>Dot\<close> is \<^verbatim>\<open>.\<close>,
  \<open>Digit\<close> is \<^verbatim>\<open>\d\<close>, \<open>AnyChar\<close> is \<^verbatim>\<open>[\s\S]\<close>; \<open>Plus\<close> is \<^verbatim>\<open>+\<close>, \<open>Star\<close>
  is \<^verbatim>\<open>*\<close> and \<open>StarLazy\<close> is \<^verbatim>\<open>*?\<close>.
\<close>

datatype cclass = Lit char | Dot | Digit | AnyChar

datatype quant = One | Plus | Star | StarLazy

datatype ritem = Atom cclass quant | EolM

type_synonym regex = "ritem list"

definition is_line_terminator :: "char \<Rightarrow> bool" where
  "is_line_terminator c = (c = CHR 0x0A \<or> c = CHR 0x0D)"

fun cmatch :: "cclass \<Rightarrow> char \<Rightarrow> bool" where
  "cmatch (Lit c) x = (x = c)"
| "cmatch Dot x = (\<not> is_line_terminator x)"
| "cmatch Digit x = (x \<in> set ''0123456789'')"
| "cmatch AnyChar x = True"

text \<open>
  The backtracking matcher: \<open>rmatch re s\<close> is the text the expression matches at the
  start of \<open>s\<close>, the first one in the order in which backtracking tries them (a greedy
  quantifier takes one more character before it tries the rest, a lazy one tries the rest
  first), or \<open>None\<close>.
\<close>

fun rmatch :: "regex \<Rightarrow> string \<Rightarrow> string option" where
  "rmatch [] s = Some []"
| "rmatch (EolM # r) s =
     (case s of
        [] \<Rightarrow> rmatch r s
      | x # xs \<Rightarrow> if is_line_terminator x then rmatch r s else None)"
| "rmatch (Atom c One # r) s =
     (case s of
        [] \<Rightarrow> None
      | x # xs \<Rightarrow> if cmatch c x then map_option ((#) x) (rmatch r xs) else None)"
| "rmatch (Atom c Plus # r) s =
     (case s of
        [] \<Rightarrow> None
      | x # xs \<Rightarrow>
          if cmatch c x then map_option ((#) x) (rmatch (Atom c Star # r) xs) else None)"
| "rmatch (Atom c Star # r) s =
     (case s of
        [] \<Rightarrow> rmatch r s
      | x # xs \<Rightarrow>
          if cmatch c x
          then (case rmatch (Atom c Star # r) xs of
                  Some m \<Rightarrow> Some (x # m)
                | None \<Rightarrow> rmatch r s)
          else rmatch r s)"
| "rmatch (Atom c StarLazy # r) s =
     (case rmatch r s of
        Some m \<Rightarrow> Some m
      | None \<Rightarrow>
          (case s of
             [] \<Rightarrow> None
           | x # xs \<Rightarrow>
               if cmatch c x then map_option ((#) x) (rmatch (Atom c StarLazy # r) xs)
               else None))"

text \<open>The expression that matches the text \<open>s\<close> and nothing else.\<close>

definition lits :: "string \<Rightarrow> regex" where
  "lits s = map (\<lambda>c. Atom (Lit c) One) s"

text \<open>
  The first argument of \<^verbatim>\<open>String.prototype.replace\<close>: a string, or a regular expression
  with or without the flag \<open>g\<close>.
\<close>

datatype pattern = StrPat string | RegExp regex bool

fun pmatch :: "pattern \<Rightarrow> string \<Rightarrow> string option" where
  "pmatch (StrPat p) s = (if starts_with s p then Some p else None)"
| "pmatch (RegExp re g) s = rmatch re s"

fun is_global :: "pattern \<Rightarrow> bool" where
  "is_global (StrPat p) = False"
| "is_global (RegExp re g) = g"

text \<open>
  \<^verbatim>\<open>s.replace(pat, repl)\<close>, scanning from the left; \<open>rpre\<close> is the text already
  passed, reversed.  A string pattern and an expression without \<open>g\<close> replace the first
  match only; with \<open>g\<close> the scan goes on behind each match, one character further after
  an empty one.
\<close>

function replace_from :: "pattern \<Rightarrow> string \<Rightarrow> string \<Rightarrow> string \<Rightarrow> string" where
  "replace_from pat repl rpre s =
     (case pmatch pat s of
        None \<Rightarrow>
          (case s of [] \<Rightarrow> [] | c # cs \<Rightarrow> c # replace_from pat repl (c # rpre) cs)
      | Some matched \<Rightarrow>
          (let post = drop (length matched) s;
               new = GetSubstitution matched (rev rpre) post repl
           in if \<not> is_global pat then new @ post
              else (case s of
                      [] \<Rightarrow> new
                    | c # cs \<Rightarrow>
                        if matched = [] then new @ c # replace_from pat repl (c # rpre) cs
                        else new @ replace_from pat repl (rev matched @ rpre) post)))"
  by pat_completeness auto
termination
  by (relation "measure (\<lambda>(pat, repl, rpre, s). length s)") auto

definition replace :: "string \<Rightarrow> pattern \<Rightarrow> string \<Rightarrow> string" where
  "replace s pat repl = replace_from pat repl [] s"






section \<open>The shared configuration store (ConfigContext.tsx)\<close>

text \<open>
  \<^verbatim>\<open>const [configs, setConfigs] = useState<Record<string, any>>({})\<close>:
  the store is a plain object, empty at first.
\<close>

type_synonym store = "(string \<times> jsval) list"

definition initial_configs :: store where
  "initial_configs = []"

text \<open>
  \<^verbatim>\<open>setConfigs(prev => ({ ...prev, [stepId]: config }))\<close>.  The function returns the
  store of the next render.
\<close>

definition applyConfig :: "store \<Rightarrow> string \<Rightarrow> jsval \<Rightarrow> store" where
  "applyConfig prev stepId config = AList.update stepId config prev"

text \<open>\<^verbatim>\<open>return configs[stepId] || {}\<close>.\<close>

definition getConfig :: "store \<Rightarrow> string \<Rightarrow> jsval" where
  "getConfig configs stepId = js_or (obj_get configs stepId) (JObj [])"


section \<open>The wizard shell (Index.tsx, Sidebar.tsx)\<close>

text \<open>\<^verbatim>\<open>setActiveStep((prev) => Math.min(prev + 1, 8))\<close>.\<close>

definition Index_handleNextStep :: "int \<Rightarrow> int" where
  "Index_handleNextStep prev = min (prev + 1) 8"

text \<open>
  The nine entries of the side navigation, each with the \<open>id\<close> its button passes to
  \<^verbatim>\<open>setActiveStep\<close>.
\<close>

datatype StepItem =
    Overview | RepositorySetup | Jenkinsfile | Dockerfile | KubernetesManifests
  | DeploymentConfig | MonitoringSetup | ExportProject | Settings

fun step_id :: "StepItem \<Rightarrow> int" where
  "step_id Overview = 0"
| "step_id RepositorySetup = 1"
| "step_id Jenkinsfile = 2"
| "step_id Dockerfile = 3"
| "step_id KubernetesManifests = 4"
| "step_id DeploymentConfig = 5"
| "step_id MonitoringSetup = 6"
| "step_id ExportProject = 7"
| "step_id Settings = 8"

text \<open>
  What changes \<open>activeStep\<close>: the next button of the step on display, or a click in the
  side navigation.
\<close>

datatype shell_event = NextClicked | SidebarClicked StepItem

fun shell_step :: "int \<Rightarrow> shell_event \<Rightarrow> int" where
  "shell_step activeStep NextClicked = Index_handleNextStep activeStep"
| "shell_step activeStep (SidebarClicked item) = step_id item"

text \<open>\<^verbatim>\<open>useState(0)\<close>, then the events in their order.\<close>

definition run_shell :: "shell_event list \<Rightarrow> int" where
  "run_shell evs = foldl shell_step 0 evs"


section \<open>What a step's handlers reach outside the step\<close>

text \<open>
  A handler of a step changes the state of its own component, and it can call
  \<^verbatim>\<open>applyConfig\<close> of the store, \<^verbatim>\<open>goToNextStep\<close> of the shell,
  \<^verbatim>\<open>toast\<close>, and start a download.  The world outside the component is the store, the
  step index and the sequence of these calls so far.
\<close>

datatype call =
    ApplyConfig string jsval
  | GoToNextStep
  | Toast string string
  | Download string string

record world =
  configs :: store
  activeStep :: int
  calls :: "call list"

definition call_applyConfig :: "string \<Rightarrow> jsval \<Rightarrow> world \<Rightarrow> world" where
  "call_applyConfig stepId config w =
     w\<lparr>configs := applyConfig (configs w) stepId config,
       calls := calls w @ [ApplyConfig stepId config]\<rparr>"

definition goToNextStep :: "world \<Rightarrow> world" where
  "goToNextStep w =
     w\<lparr>activeStep := Index_handleNextStep (activeStep w), calls := calls w @ [GoToNextStep]\<rparr>"

definition toast :: "string \<Rightarrow> string \<Rightarrow> world \<Rightarrow> world" where
  "toast title description w = w\<lparr>calls := calls w @ [Toast title description]\<rparr>"

text \<open>The world when the application starts.\<close>

definition initial_world :: world where
  "initial_world = \<lparr>configs = initial_configs, activeStep = 0, calls = []\<rparr>"


section \<open>The repository step (RepositorySetup.tsx)\<close>

text \<open>
  The component keeps \<open>repoConfig\<close> in its own state.  It does not use the store: it
  has a change handler for its inputs, and its button calls \<^verbatim>\<open>goToNextStep\<close>.
\<close>

record RepositorySetup_state =
  repoConfig :: jsval


text \<open>\<^verbatim>\<open>setRepoConfig(prev => ({ ...prev, [name]: value }))\<close>.\<close>

definition RepositorySetup_handleChange ::
  "string \<Rightarrow> string \<Rightarrow> RepositorySetup_state \<Rightarrow> RepositorySetup_state" where
  "RepositorySetup_handleChange name val st =
     st\<lparr>repoConfig := set_prop (repoConfig st) name (JStr val)\<rparr>"

text \<open>Everything the user can do in this step.\<close>

datatype RepositorySetup_event = InputChanged string string | ContinueClicked

fun RepositorySetup_step ::
  "RepositorySetup_event \<Rightarrow> RepositorySetup_state \<times> world \<Rightarrow> RepositorySetup_state \<times> world"
  where
  "RepositorySetup_step (InputChanged name val) (st, w) =
     (RepositorySetup_handleChange name val st, w)"
| "RepositorySetup_step ContinueClicked (st, w) = (st, goToNextStep w)"


section \<open>The pipeline-script step (JenkinsfileSetup.tsx)\<close>

definition defaultJenkinsfile :: string where
  \<open>defaultJenkinsfile =
''pipeline {
  agent any
  
  environment {
    DOCKER_USERNAME = 'DOCKER_USERNAME'
    IMAGE_NAME = 'go-microservice'
    IMAGE_TAG = "${BUILD_NUMBER}"
    KUBECONFIG = credentials('kubeconfig')
  }
  
  stages {
    stage('Checkout') {
      steps {
        checkout scm
      }
    }
    
    stage('Build') {
      steps {
        sh 'go build -o app'
        sh 'go test ./...'
      }
    }
    
    stage('Docker Build') {
      steps {
        withCredentials([string(credentialsId: 'docker-credentials', variable: 'DOCKER_PASSWORD')]) {
          sh "docker login -u $DOCKER_USERNAME -p ${DOCKER_PASSWORD}"
          sh "docker build -t $DOCKER_USERNAME/$IMAGE_NAME:${IMAGE_TAG} ."
          sh "docker push $DOCKER_USERNAME/$IMAGE_NAME:${IMAGE_TAG}"
        }
      }
    }
    
    stage('Deploy to Kubernetes') {
      steps {
        sh "envsubst < k8s/deployment.yaml | kubectl apply -f -"
        sh "kubectl apply -f k8s/service.yaml"
        sh "kubectl apply -f k8s/configmap.yaml"
        sh "kubectl rollout status deployment/$IMAGE_NAME"
      }
    }
    
    stage('Health Check') {
      steps {
        sh 'sleep 10' // Wait for deployment to stabilize
        sh 'curl -f $(kubectl get svc $IMAGE_NAME -o jsonpath="{.status.loadBalancer.ingress[0].ip}")/health || exit 1'
      }
    }
    
    stage('Setup Monitoring') {
      steps {
        sh "kubectl apply -f k8s/prometheus.yaml"
        sh "kubectl apply -f k8s/grafana.yaml"
      }
    }
  }
  
  post {
    success {
      echo 'Pipeline completed successfully!'
    }
    failure {
      echo 'Pipeline failed!'
    }
  }
}''\<close>

text \<open>
  The state of the component.  A state holds the values of one render with its effects
  run.
\<close>

record JenkinsfileSetup_state =
  J_jenkinsfile :: jsval
  J_vars :: jsval
  J_hasUnsavedChanges :: bool

text \<open>The first render: the \<^verbatim>\<open>useState\<close> initialisers, evaluated against the store.\<close>

definition JenkinsfileSetup_init :: "store \<Rightarrow> JenkinsfileSetup_state" where
  "JenkinsfileSetup_init cfgs =
     (let savedConfig = getConfig cfgs ''jenkinsfile'' in
      \<lparr>J_jenkinsfile = js_or (js_get savedConfig ''jenkinsfile'') (JStr defaultJenkinsfile),
       J_vars = js_or (js_get savedConfig ''vars'')
         (JObj [(''dockerUsername'', JStr ''DOCKER_USERNAME''),
                (''imageName'', JStr ''go-microservice''),
                (''kubeConfigId'', JStr ''kubeconfig''),
                (''dockerCredentialsId'', JStr ''docker-credentials'')]),
       J_hasUnsavedChanges = False\<rparr>)"

text \<open>
  \<^verbatim>\<open>useEffect(() => { setHasUnsavedChanges(true); }, [jenkinsfile, vars])\<close>: the effect
  runs after the first render, and after every render in which \<open>jenkinsfile\<close> or
  \<open>vars\<close> is not the same value as in the render before.
\<close>

definition JenkinsfileSetup_effect :: "JenkinsfileSetup_state \<Rightarrow> JenkinsfileSetup_state" where
  "JenkinsfileSetup_effect st = st\<lparr>J_hasUnsavedChanges := True\<rparr>"

text \<open>The component once mounted: the first render, then its effect.\<close>

definition JenkinsfileSetup_mount :: "store \<Rightarrow> JenkinsfileSetup_state" where
  "JenkinsfileSetup_mount cfgs = JenkinsfileSetup_effect (JenkinsfileSetup_init cfgs)"

text \<open>
  \<open>handleVarChange\<close>, for an input named \<open>name\<close> that now holds \<open>val\<close>.
  \<^verbatim>\<open>setVars\<close> stores a new object, so the effect runs after the handler.
\<close>

definition JenkinsfileSetup_handleVarChange ::
  "string \<Rightarrow> string \<Rightarrow> JenkinsfileSetup_state \<Rightarrow> JenkinsfileSetup_state" where
  \<open>JenkinsfileSetup_handleVarChange name val st =
     (let updatedJenkinsfile =
        (if name = ''dockerUsername'' then
           replace defaultJenkinsfile (StrPat ''DOCKER_USERNAME'') val
         else if name = ''imageName'' then
           replace
             (replace defaultJenkinsfile
                (RegExp (lits (''IMAGE_NAME = 'go-microservice'' @ [CHR 0x27])) True)
                (''IMAGE_NAME = '' @ [CHR 0x27] @ val @ [CHR 0x27]))
             (RegExp (lits ''deployment/go-microservice'') True)
             (''deployment/'' @ val)
         else if name = ''kubeConfigId'' then
           replace defaultJenkinsfile
             (RegExp (lits (''credentials('kubeconfig')'')) True)
             (''credentials('' @ [CHR 0x27] @ val @ ''')'')
         else if name = ''dockerCredentialsId'' then
           replace defaultJenkinsfile
             (RegExp (lits (''credentials('docker-credentials')'')) True)
             (''credentials('' @ [CHR 0x27] @ val @ ''')'')
         else defaultJenkinsfile)
      in JenkinsfileSetup_effect
           (st\<lparr>J_vars := set_prop (J_vars st) name (JStr val),
               J_jenkinsfile := JStr updatedJenkinsfile\<rparr>))\<close>

text \<open>
  The code editor calls \<^verbatim>\<open>setJenkinsfile\<close> with the text typed.  A text equal to the
  buffer leaves the state as it is, and no effect runs.
\<close>

definition JenkinsfileSetup_setJenkinsfile ::
  "string \<Rightarrow> JenkinsfileSetup_state \<Rightarrow> JenkinsfileSetup_state" where
  "JenkinsfileSetup_setJenkinsfile code st =
     (if J_jenkinsfile st = JStr code then st
      else JenkinsfileSetup_effect (st\<lparr>J_jenkinsfile := JStr code\<rparr>))"

text \<open>\<open>handleApplyChanges\<close>: neither dependency of the effect changes.\<close>

definition JenkinsfileSetup_handleApplyChanges ::
  "JenkinsfileSetup_state \<times> world \<Rightarrow> JenkinsfileSetup_state \<times> world" where
  "JenkinsfileSetup_handleApplyChanges sw =
     (let st = fst sw; w = snd sw;
          currentConfig = JObj [(''jenkinsfile'', J_jenkinsfile st), (''vars'', J_vars st)]
      in (st\<lparr>J_hasUnsavedChanges := False\<rparr>, call_applyConfig ''jenkinsfile'' currentConfig w))"

definition JenkinsfileSetup_handleNextStep ::
  "JenkinsfileSetup_state \<times> world \<Rightarrow> JenkinsfileSetup_state \<times> world" where
  "JenkinsfileSetup_handleNextStep sw =
     (let sw' = (if J_hasUnsavedChanges (fst sw) then JenkinsfileSetup_handleApplyChanges sw
                 else sw)
      in (fst sw', goToNextStep (snd sw')))"


section \<open>The build-script step (DockerfileSetup.tsx)\<close>


record DockerfileSetup_state =
  D_dockerfile :: jsval
  D_vars :: jsval
  D_hasUnsavedChanges :: bool


text \<open>\<^verbatim>\<open>useEffect(() => { setHasUnsavedChanges(true); }, [dockerfile, vars])\<close>.\<close>

definition DockerfileSetup_effect :: "DockerfileSetup_state \<Rightarrow> DockerfileSetup_state" where
  "DockerfileSetup_effect st = st\<lparr>D_hasUnsavedChanges := True\<rparr>"



definition DockerfileSetup_setDockerfile ::
  "string \<Rightarrow> DockerfileSetup_state \<Rightarrow> DockerfileSetup_state" where
  "DockerfileSetup_setDockerfile code st =
     (if D_dockerfile st = JStr code then st
      else DockerfileSetup_effect (st\<lparr>D_dockerfile := JStr code\<rparr>))"

definition DockerfileSetup_handleApplyChanges ::
  "DockerfileSetup_state \<times> world \<Rightarrow> DockerfileSetup_state \<times> world" where
  "DockerfileSetup_handleApplyChanges sw =
     (let st = fst sw; w = snd sw;
          currentConfig = JObj [(''dockerfile'', D_dockerfile st), (''vars'', D_vars st)]
      in (st\<lparr>D_hasUnsavedChanges := False\<rparr>, call_applyConfig ''dockerfile'' currentConfig w))"

definition DockerfileSetup_handleNextStep ::
  "DockerfileSetup_state \<times> world \<Rightarrow> DockerfileSetup_state \<times> world" where
  "DockerfileSetup_handleNextStep sw =
     (let sw' = (if D_hasUnsavedChanges (fst sw) then DockerfileSetup_handleApplyChanges sw
                 else sw)
      in (fst sw', goToNextStep (snd sw')))"


section \<open>The cluster-manifest step (KubernetesSetup.tsx)\<close>








record KubernetesSetup_state =
  K_deploymentYaml :: jsval
  K_serviceYaml :: jsval
  K_redisYaml :: jsval
  K_configMapYaml :: jsval
  K_persistentVolumeYaml :: jsval
  K_persistentVolumeClaimYaml :: jsval
  K_enablePersistence :: jsval
  K_cloudProvider :: jsval
  K_storageClass :: jsval
  K_diskSize :: jsval
  K_volumePath :: jsval
  K_vars :: jsval
  K_hasUnsavedChanges :: bool




definition KubernetesSetup_currentConfig :: "KubernetesSetup_state \<Rightarrow> jsval" where
  "KubernetesSetup_currentConfig st =
     JObj [(''deploymentYaml'', K_deploymentYaml st),
           (''serviceYaml'', K_serviceYaml st),
           (''redisYaml'', K_redisYaml st),
           (''configMapYaml'', K_configMapYaml st),
           (''persistentVolumeYaml'', K_persistentVolumeYaml st),
           (''persistentVolumeClaimYaml'', K_persistentVolumeClaimYaml st),
           (''enablePersistence'', K_enablePersistence st),
           (''cloudProvider'', K_cloudProvider st),
           (''storageClass'', K_storageClass st),
           (''diskSize'', K_diskSize st),
           (''volumePath'', K_volumePath st),
           (''vars'', K_vars st)]"

text \<open>\<open>handleApplyChanges\<close>, which here also shows a notification.\<close>

definition KubernetesSetup_handleApplyChanges ::
  "KubernetesSetup_state \<times> world \<Rightarrow> KubernetesSetup_state \<times> world" where
  "KubernetesSetup_handleApplyChanges sw =
     (let st = fst sw; w = snd sw;
          currentConfig = KubernetesSetup_currentConfig st
      in (st\<lparr>K_hasUnsavedChanges := False\<rparr>,
          toast ''Changes applied'' ''Kubernetes configuration has been updated successfully.''
            (call_applyConfig ''kubernetes'' currentConfig w)))"

definition KubernetesSetup_handleNextStep ::
  "KubernetesSetup_state \<times> world \<Rightarrow> KubernetesSetup_state \<times> world" where
  "KubernetesSetup_handleNextStep sw =
     (let sw' = (if K_hasUnsavedChanges (fst sw) then KubernetesSetup_handleApplyChanges sw
                 else sw)
      in (fst sw', goToNextStep (snd sw')))"


section \<open>The deployment step (DeploymentConfig.tsx)\<close>




record DeploymentConfig_state =
  C_envSampleFile :: jsval
  C_readmeFile :: jsval
  C_documentationFile :: jsval
  C_settings :: jsval
  C_hasUnsavedChanges :: bool


definition DeploymentConfig_effect :: "DeploymentConfig_state \<Rightarrow> DeploymentConfig_state" where
  "DeploymentConfig_effect st = st\<lparr>C_hasUnsavedChanges := True\<rparr>"


text \<open>\<open>handleSettingsChange\<close> stores the setting and touches no buffer.\<close>

definition DeploymentConfig_handleSettingsChange ::
  "string \<Rightarrow> jsval \<Rightarrow> DeploymentConfig_state \<Rightarrow> DeploymentConfig_state" where
  "DeploymentConfig_handleSettingsChange key val st =
     DeploymentConfig_effect (st\<lparr>C_settings := set_prop (C_settings st) key val\<rparr>)"

text \<open>The three code editors.\<close>

definition DeploymentConfig_setEnvSampleFile ::
  "string \<Rightarrow> DeploymentConfig_state \<Rightarrow> DeploymentConfig_state" where
  "DeploymentConfig_setEnvSampleFile code st =
     (if C_envSampleFile st = JStr code then st
      else DeploymentConfig_effect (st\<lparr>C_envSampleFile := JStr code\<rparr>))"

definition DeploymentConfig_setReadmeFile ::
  "string \<Rightarrow> DeploymentConfig_state \<Rightarrow> DeploymentConfig_state" where
  "DeploymentConfig_setReadmeFile code st =
     (if C_readmeFile st = JStr code then st
      else DeploymentConfig_effect (st\<lparr>C_readmeFile := JStr code\<rparr>))"

definition DeploymentConfig_setDocumentationFile ::
  "string \<Rightarrow> DeploymentConfig_state \<Rightarrow> DeploymentConfig_state" where
  "DeploymentConfig_setDocumentationFile code st =
     (if C_documentationFile st = JStr code then st
      else DeploymentConfig_effect (st\<lparr>C_documentationFile := JStr code\<rparr>))"

definition DeploymentConfig_handleApplyChanges ::
  "DeploymentConfig_state \<times> world \<Rightarrow> DeploymentConfig_state \<times> world" where
  "DeploymentConfig_handleApplyChanges sw =
     (let st = fst sw; w = snd sw;
          currentConfig = JObj [(''envSampleFile'', C_envSampleFile st),
                                (''readmeFile'', C_readmeFile st),
                                (''documentationFile'', C_documentationFile st),
                                (''settings'', C_settings st)]
      in (st\<lparr>C_hasUnsavedChanges := False\<rparr>,
          call_applyConfig ''deploymentConfig'' currentConfig w))"

definition DeploymentConfig_handleNextStep ::
  "DeploymentConfig_state \<times> world \<Rightarrow> DeploymentConfig_state \<times> world" where
  "DeploymentConfig_handleNextStep sw =
     (let sw' = (if C_hasUnsavedChanges (fst sw) then DeploymentConfig_handleApplyChanges sw
                 else sw)
      in (fst sw', goToNextStep (snd sw')))"


section \<open>The monitoring step (MonitoringSetup.tsx)\<close>





record MonitoringSetup_state =
  M_prometheusYaml :: jsval
  M_grafanaYaml :: jsval
  M_dashboardJson :: jsval
  M_alertsYaml :: jsval
  M_settings :: jsval
  M_hasUnsavedChanges :: bool


text \<open>The effect, which depends on the four buffers and on \<open>settings\<close>.\<close>

definition MonitoringSetup_effect :: "MonitoringSetup_state \<Rightarrow> MonitoringSetup_state" where
  "MonitoringSetup_effect st = st\<lparr>M_hasUnsavedChanges := True\<rparr>"


text \<open>The regular expressions of \<open>handleSettingsChange\<close>, in the order of the source.\<close>

















definition MonitoringSetup_setDashboardJson ::
  "string \<Rightarrow> MonitoringSetup_state \<Rightarrow> MonitoringSetup_state" where
  "MonitoringSetup_setDashboardJson code st =
     (if M_dashboardJson st = JStr code then st
      else MonitoringSetup_effect (st\<lparr>M_dashboardJson := JStr code\<rparr>))"

definition MonitoringSetup_setAlertsYaml ::
  "string \<Rightarrow> MonitoringSetup_state \<Rightarrow> MonitoringSetup_state" where
  "MonitoringSetup_setAlertsYaml code st =
     (if M_alertsYaml st = JStr code then st
      else MonitoringSetup_effect (st\<lparr>M_alertsYaml := JStr code\<rparr>))"

definition MonitoringSetup_handleApplyChanges ::
  "MonitoringSetup_state \<times> world \<Rightarrow> MonitoringSetup_state \<times> world" where
  "MonitoringSetup_handleApplyChanges sw =
     (let st = fst sw; w = snd sw;
          currentConfig = JObj [(''prometheusYaml'', M_prometheusYaml st),
                                (''grafanaYaml'', M_grafanaYaml st),
                                (''dashboardJson'', M_dashboardJson st),
                                (''alertsYaml'', M_alertsYaml st),
                                (''settings'', M_settings st)]
      in (st\<lparr>M_hasUnsavedChanges := False\<rparr>,
          call_applyConfig ''monitoringSetup'' currentConfig w))"

definition MonitoringSetup_handleNextStep ::
  "MonitoringSetup_state \<times> world \<Rightarrow> MonitoringSetup_state \<times> world" where
  "MonitoringSetup_handleNextStep sw =
     (let sw' = (if M_hasUnsavedChanges (fst sw) then MonitoringSetup_handleApplyChanges sw
                 else sw)
      in (fst sw', goToNextStep (snd sw')))"


section \<open>The export step (ExportProject.tsx)\<close>

text \<open>
  The built-in samples of \<open>generateSampleContent\<close>, each a function of the texts its
  template literal interpolates.
\<close>

definition sample_Jenkinsfile :: "string \<Rightarrow> string \<Rightarrow> string \<Rightarrow> string \<Rightarrow> string \<Rightarrow> string" where
  \<open>sample_Jenkinsfile dockerUsername imageName buildNumber kubeConfigId dockerCredentialsId =
''pipeline {
  agent any
  
  environment {
    DOCKER_USERNAME = '' @ [CHR 0x27] @ dockerUsername @ '''
    IMAGE_NAME = '' @ [CHR 0x27] @ imageName @ '''
    IMAGE_TAG = "'' @ buildNumber @ ''"
    KUBECONFIG = credentials('' @ [CHR 0x27] @ kubeConfigId @ ''')
  }
  
  stages {
    stage('Checkout') {
      steps {
        checkout scm
      }
    }
    
    stage('Build') {
      steps {
        sh 'go build -o app'
        sh 'go test ./...'
      }
    }
    
    stage('Docker Build') {
      steps {
        withCredentials([string(credentialsId: '' @ [CHR 0x27] @ dockerCredentialsId @ ''', variable: 'DOCKER_PASSWORD')]) {
          sh "docker login -u $DOCKER_USERNAME -p ${DOCKER_PASSWORD}"
          sh "docker build -t $DOCKER_USERNAME/$IMAGE_NAME:${IMAGE_TAG} ."
          sh "docker push $DOCKER_USERNAME/$IMAGE_NAME:${IMAGE_TAG}"
        }
      }
    }
    
    stage('Deploy to Kubernetes') {
      steps {
        sh "envsubst < k8s/deployment.yaml | kubectl apply -f -"
        sh "kubectl apply -f k8s/service.yaml"
        sh "kubectl apply -f k8s/configmap.yaml"
        sh "kubectl rollout status deployment/$IMAGE_NAME"
      }
    }
    
    stage('Health Check') {
      steps {
        sh 'sleep 10' // Wait for deployment to stabilize
        sh 'curl -f $(kubectl get svc $IMAGE_NAME -o jsonpath="{.status.loadBalancer.ingress[0].ip}")/health || exit 1'
      }
    }
    
    stage('Setup Monitoring') {
      steps {
        sh "kubectl apply -f k8s/prometheus.yaml"
        sh "kubectl apply -f k8s/grafana.yaml"
      }
    }
  }
  
  post {
    success {
      echo 'Pipeline completed successfully!'
    }
    failure {
      echo 'Pipeline failed!'
    }
  }
}''\<close>

definition sample_Dockerfile :: string where
  \<open>sample_Dockerfile =
''FROM golang:1.18-alpine AS builder

WORKDIR /app
COPY go.mod go.sum ./
RUN go mod download
COPY . .
RUN go build -o app

FROM alpine:latest
WORKDIR /app
COPY --from=builder /app/app .
COPY --from=builder /app/config ./config

EXPOSE 8080
CMD ["./app"]''\<close>

definition sample_deployment :: "string \<Rightarrow> string \<Rightarrow> string \<Rightarrow> string \<Rightarrow> string" where
  \<open>sample_deployment deploymentName app dockerUsername buildNumber =
''apiVersion: apps/v1
kind: Deployment
metadata:
  name: '' @ deploymentName @ ''
spec:
  replicas: 3
  selector:
    matchLabels:
      app: '' @ app @ ''
  template:
    metadata:
      labels:
        app: '' @ app @ ''
    spec:
      containers:
      - name: '' @ app @ ''
        image: '' @ dockerUsername @ ''/'' @ app @ '':'' @ buildNumber @ ''
        ports:
        - containerPort: 8080''\<close>

definition sample_manifest :: "string \<Rightarrow> string \<Rightarrow> string \<Rightarrow> string" where
  \<open>sample_manifest kind base name =
''apiVersion: apps/v1
kind: '' @ kind @ ''
metadata:
  name: example-'' @ base @ ''
spec:
  # Sample configuration for '' @ name @ ''
  selector:
    app: example
  ports:
  - port: 80
    targetPort: 8080''\<close>

definition sample_other :: "string \<Rightarrow> string" where
  \<open>sample_other name =
''# '' @ name @ ''

This is a sample content for '' @ name\<close>

text \<open>
  \<^verbatim>\<open>configs.jenkinsfile?.vars?.k || d\<close>, as a template literal interpolates it.
\<close>

definition jenkinsfile_var :: "store \<Rightarrow> string \<Rightarrow> string \<Rightarrow> string" where
  "jenkinsfile_var cfgs k d =
     to_string (js_or (js_opt_get (js_opt_get (obj_get cfgs ''jenkinsfile'') ''vars'') k) (JStr d))"

text \<open>\<^verbatim>\<open>name.split('.')[0]\<close>.\<close>

definition split0 :: "string \<Rightarrow> string" where
  "split0 name = (case split name CHR ''.'' of [] \<Rightarrow> [] | x # xs \<Rightarrow> x)"

text \<open>
  \<open>generateSampleContent\<close>, for the store \<open>cfgs\<close> of the render.  \<open>random1000\<close> is the
  value of \<^verbatim>\<open>Math.floor(Math.random() * 1000)\<close> in this call, a number from 0 to 999.
\<close>

definition generateSampleContent :: "store \<Rightarrow> nat \<Rightarrow> string \<Rightarrow> string \<Rightarrow> jsval" where
  "generateSampleContent cfgs random1000 name ftype =
     (let buildNumber = random1000 + 1 in
      if name = ''Jenkinsfile'' then
        (if truthy (obj_get cfgs ''jenkinsfile'')
            \<and> truthy (js_get (obj_get cfgs ''jenkinsfile'') ''jenkinsfile'')
         then js_get (obj_get cfgs ''jenkinsfile'') ''jenkinsfile''
         else JStr (sample_Jenkinsfile
                      (jenkinsfile_var cfgs ''dockerUsername'' ''DOCKER_USERNAME'')
                      (jenkinsfile_var cfgs ''imageName'' ''go-microservice'')
                      (show_nat buildNumber)
                      (jenkinsfile_var cfgs ''kubeConfigId'' ''kubeconfig'')
                      (jenkinsfile_var cfgs ''dockerCredentialsId'' ''docker-credentials'')))
      else if name = ''Dockerfile'' then
        (if truthy (obj_get cfgs ''dockerfile'')
            \<and> truthy (js_get (obj_get cfgs ''dockerfile'') ''dockerfile'')
         then js_get (obj_get cfgs ''dockerfile'') ''dockerfile''
         else JStr sample_Dockerfile)
      else if ftype = ''manifest'' then
        (if name = ''deployment.yaml'' then
           JStr (sample_deployment
                   (jenkinsfile_var cfgs ''imageName'' ''example-deployment'')
                   (jenkinsfile_var cfgs ''imageName'' ''example'')
                   (jenkinsfile_var cfgs ''dockerUsername'' ''username'')
                   (show_nat buildNumber))
         else
           JStr (sample_manifest
                   (toUpperCase (take 1 (split0 name)) @ drop 1 (split0 name))
                   (split0 name)
                   name))
      else JStr (sample_other name))"

text \<open>The entries of \<open>files\<close>, without their icons.\<close>

record FileItem =
  file_name :: string
  file_path :: string
  file_size :: string
  file_type :: string
  file_content :: jsval

definition file_item :: "store \<Rightarrow> nat \<Rightarrow> string \<Rightarrow> string \<Rightarrow> string \<Rightarrow> string \<Rightarrow> FileItem" where
  "file_item cfgs random1000 name path size_label ftype =
     \<lparr>file_name = name, file_path = path, file_size = size_label, file_type = ftype,
      file_content = generateSampleContent cfgs random1000 name ftype\<rparr>"

text \<open>
  \<open>files\<close>, as one render computes it: \<open>rnd i\<close> is the random number that the call
  for the entry at index \<open>i\<close> draws.
\<close>

definition files :: "store \<Rightarrow> (nat \<Rightarrow> nat) \<Rightarrow> FileItem list" where
  "files cfgs rnd =
     [file_item cfgs (rnd 0) ''Jenkinsfile'' ''/Jenkinsfile'' ''2.3 KB'' ''config'',
      file_item cfgs (rnd 1) ''Dockerfile'' ''/Dockerfile'' ''0.7 KB'' ''config'',
      file_item cfgs (rnd 2) ''deployment.yaml'' ''/k8s/deployment.yaml'' ''1.2 KB'' ''manifest'',
      file_item cfgs (rnd 3) ''service.yaml'' ''/k8s/service.yaml'' ''0.5 KB'' ''manifest'',
      file_item cfgs (rnd 4) ''redis.yaml'' ''/k8s/redis.yaml'' ''0.9 KB'' ''manifest'',
      file_item cfgs (rnd 5) ''configmap.yaml'' ''/k8s/configmap.yaml'' ''0.4 KB'' ''manifest'',
      file_item cfgs (rnd 6) ''prometheus.yaml'' ''/k8s/prometheus.yaml'' ''2.1 KB'' ''manifest'',
      file_item cfgs (rnd 7) ''grafana.yaml'' ''/k8s/grafana.yaml'' ''0.8 KB'' ''manifest'',
      file_item cfgs (rnd 8) ''dashboard.json'' ''/k8s/dashboard.json'' ''4.7 KB'' ''manifest'',
      file_item cfgs (rnd 9) ''.env.sample'' ''/.env.sample'' ''0.3 KB'' ''config'',
      file_item cfgs (rnd 10) ''README.md'' ''/README.md'' ''1.5 KB'' ''config'',
      file_item cfgs (rnd 11) ''DOCUMENTATION.md'' ''/DOCUMENTATION.md'' ''2.2 KB'' ''config'']"

text \<open>
  \<open>downloadFile\<close>: the blob holds the content as a string, the download carries the
  name of the file.
\<close>

definition downloadFile :: "FileItem \<Rightarrow> world \<Rightarrow> world" where
  "downloadFile file w =
     toast ''File Downloaded'' (file_name file @ '' has been downloaded successfully.'')
       (w\<lparr>calls := calls w @ [Download (file_name file) (to_string (file_content file))]\<rparr>)"


text \<open>\<open>handleExport\<close>, once all its timers have fired.\<close>

definition handleExport :: "FileItem list \<Rightarrow> world \<Rightarrow> world" where
  "handleExport fs w =
     toast ''Export Complete'' ''All files have been successfully exported.''
       (fold downloadFile fs
          (toast ''Export Initiated'' ''Your configuration files will be downloaded shortly.'' w))"


declare show_nat.simps [simp del]

declare replace_from.simps [simp del]


section \<open>Properties of the matcher\<close>

lemma rmatch_lits: "rmatch (lits p) s = (if starts_with s p then Some p else None)"
proof (induction p arbitrary: s)
  case Nil
  then show ?case by (simp add: lits_def)
next
  case (Cons c p)
  then show ?case by (cases s) (auto simp: lits_def)
qed

lemma starts_with_prefix: "starts_with s p \<Longrightarrow> \<exists>rest. s = p @ rest"
  by (induction s p rule: starts_with.induct) (auto split: if_splits)

lemma rmatch_prefix: "rmatch re s = Some m \<Longrightarrow> \<exists>rest. s = m @ rest"
proof (induction re s arbitrary: m rule: rmatch.induct)
  case (1 s)
  then show ?case by simp
next
  case (2 r s)
  show ?case
  proof (cases s)
    case Nil
    with "2.prems" "2.IH"(1) show ?thesis by simp
  next
    case (Cons x xs)
    with "2.prems" "2.IH"(2) show ?thesis by (simp split: if_splits)
  qed
next
  case (3 c r s)
  show ?case
  proof (cases s)
    case Nil
    with "3.prems" show ?thesis by simp
  next
    case (Cons x xs)
    with "3.prems" "3.IH" show ?thesis by (auto split: if_splits)
  qed
next
  case (4 c r s)
  show ?case
  proof (cases s)
    case Nil
    with "4.prems" show ?thesis by simp
  next
    case (Cons x xs)
    with "4.prems" "4.IH" show ?thesis
      by (auto simp del: rmatch.simps simp add: rmatch.simps(4) [of c r "x # xs"]
          split: if_splits)
  qed
next
  case (5 c r s)
  show ?case
  proof (cases s)
    case Nil
    with "5.prems" "5.IH"(1) show ?thesis
      by (simp del: rmatch.simps add: rmatch.simps(5) [of c r "[]"])
  next
    case (Cons x xs)
    with "5.prems" "5.IH"(2-4) show ?thesis
      by (auto simp del: rmatch.simps simp add: rmatch.simps(5) [of c r "x # xs"]
          split: if_splits option.splits)
  qed
next
  case (6 c r s)
  show ?case
  proof (cases "rmatch r s")
    case (Some m')
    with "6.prems" "6.IH"(1) show ?thesis
      by (simp del: rmatch.simps add: rmatch.simps(6) [of c r s])
  next
    case None
    show ?thesis
    proof (cases s)
      case Nil
      with None "6.prems" show ?thesis
        by (simp del: rmatch.simps add: rmatch.simps(6) [of c r "[]"])
    next
      case (Cons x xs)
      with None "6.prems" "6.IH"(2) show ?thesis
        by (auto simp del: rmatch.simps simp add: rmatch.simps(6) [of c r "x # xs"]
            split: if_splits)
    qed
  qed
qed

lemma pmatch_prefix: "pmatch pat s = Some m \<Longrightarrow> \<exists>rest. s = m @ rest"
  by (cases pat) (auto simp: rmatch_prefix starts_with_prefix split: if_splits)

section \<open>Properties of the store\<close>

lemma obj_get_update_same: "obj_get (AList.update k v ps) k = v"
  by (simp add: obj_get_def update_conv')


text \<open>
  C5.  Whatever the store held before, reading an identifier right after an object was
  written under it returns that object.  In particular the second of two writes under
  one identifier wins: the write replaces the entry, nothing of the previous object is
  merged in.
\<close>

theorem getConfig_after_applyConfig:
  "getConfig (applyConfig cfgs stepId (JObj ps)) stepId = JObj ps
   \<and> getConfig (applyConfig (applyConfig cfgs stepId (JObj qs)) stepId (JObj ps)) stepId =
       JObj ps"
  by (simp add: getConfig_def applyConfig_def obj_get_update_same js_or_def)





section \<open>Properties of the wizard shell\<close>

lemma step_id_range: "0 \<le> step_id item \<and> step_id item \<le> 8"
  by (cases item) simp_all

lemma shell_step_range:
  "0 \<le> s \<Longrightarrow> s \<le> 8 \<Longrightarrow> 0 \<le> shell_step s ev \<and> shell_step s ev \<le> 8"
  using step_id_range by (cases ev) (auto simp: Index_handleNextStep_def)

lemma foldl_shell_step_range:
  "0 \<le> s \<Longrightarrow> s \<le> 8 \<Longrightarrow> 0 \<le> foldl shell_step s evs \<and> foldl shell_step s evs \<le> 8"
proof (induction evs arbitrary: s)
  case Nil
  then show ?case by simp
next
  case (Cons ev evs)
  from shell_step_range [OF Cons.prems] show ?case
    by (simp add: Cons.IH)
qed

lemma Index_handleNextStep_funpow:
  "s \<le> 8 \<Longrightarrow> (Index_handleNextStep ^^ n) s = min (s + int n) 8"
  by (induction n) (auto simp: Index_handleNextStep_def)

text \<open>
  C8.  Whatever sequence of next-step and side-navigation events the shell receives from
  its initial state, the step index is within 0..8; \<open>n\<close> next-steps in a row from the
  first step lead to step \<open>min n 8\<close>, and a next-step at step 8 stays there.
\<close>

theorem activeStep_in_range:
  "0 \<le> run_shell evs \<and> run_shell evs \<le> 8
   \<and> (Index_handleNextStep ^^ n) 0 = min (int n) 8
   \<and> Index_handleNextStep 8 = 8"
proof -
  have "0 \<le> run_shell evs \<and> run_shell evs \<le> 8"
    unfolding run_shell_def by (rule foldl_shell_step_range) simp_all
  moreover have "(Index_handleNextStep ^^ n) 0 = min (int n) 8"
    using Index_handleNextStep_funpow [of 0 n] by simp
  moreover have "Index_handleNextStep 8 = 8"
    by (simp add: Index_handleNextStep_def)
  ultimately show ?thesis by simp
qed



section \<open>Applying and advancing\<close>

lemma call_applyConfig_simps:
  "configs (call_applyConfig k c w) = applyConfig (configs w) k c"
  "calls (call_applyConfig k c w) = calls w @ [ApplyConfig k c]"
  "activeStep (call_applyConfig k c w) = activeStep w"
  by (simp_all add: call_applyConfig_def)

lemma goToNextStep_simps:
  "configs (goToNextStep w) = configs w"
  "calls (goToNextStep w) = calls w @ [GoToNextStep]"
  "activeStep (goToNextStep w) = min (activeStep w + 1) 8"
  by (simp_all add: goToNextStep_def Index_handleNextStep_def)

lemma toast_simps:
  "configs (toast t d w) = configs w"
  "calls (toast t d w) = calls w @ [Toast t d]"
  "activeStep (toast t d w) = activeStep w"
  by (simp_all add: toast_def)

lemmas world_simps = call_applyConfig_simps goToNextStep_simps toast_simps




lemmas handleApplyChanges_defs =
  JenkinsfileSetup_handleApplyChanges_def DockerfileSetup_handleApplyChanges_def
  KubernetesSetup_handleApplyChanges_def DeploymentConfig_handleApplyChanges_def
  MonitoringSetup_handleApplyChanges_def

lemmas handleNextStep_defs =
  JenkinsfileSetup_handleNextStep_def DockerfileSetup_handleNextStep_def
  KubernetesSetup_handleNextStep_def DeploymentConfig_handleNextStep_def
  MonitoringSetup_handleNextStep_def

text \<open>
  C7.  In each of the five steps that have an unsaved-changes flag, the next-step action
  with the flag set calls \<open>applyConfig\<close> once, with the step's identifier and current
  state, and then \<open>goToNextStep\<close>; with the flag clear it calls \<open>goToNextStep\<close>
  only and leaves the store as it is.  The repository step has no such flag, and its
  button calls \<open>goToNextStep\<close> only.
\<close>

theorem handleNextStep_applies_once:
  "calls (snd (JenkinsfileSetup_handleNextStep (st_j, w))) =
     calls w @
     (if J_hasUnsavedChanges st_j
      then [ApplyConfig ''jenkinsfile''
              (JObj [(''jenkinsfile'', J_jenkinsfile st_j), (''vars'', J_vars st_j)])]
      else []) @ [GoToNextStep]
   \<and> configs (snd (JenkinsfileSetup_handleNextStep (st_j, w))) =
     (if J_hasUnsavedChanges st_j
      then applyConfig (configs w) ''jenkinsfile''
             (JObj [(''jenkinsfile'', J_jenkinsfile st_j), (''vars'', J_vars st_j)])
      else configs w)
   \<and> calls (snd (DockerfileSetup_handleNextStep (st_d, w))) =
     calls w @
     (if D_hasUnsavedChanges st_d
      then [ApplyConfig ''dockerfile''
              (JObj [(''dockerfile'', D_dockerfile st_d), (''vars'', D_vars st_d)])]
      else []) @ [GoToNextStep]
   \<and> configs (snd (DockerfileSetup_handleNextStep (st_d, w))) =
     (if D_hasUnsavedChanges st_d
      then applyConfig (configs w) ''dockerfile''
             (JObj [(''dockerfile'', D_dockerfile st_d), (''vars'', D_vars st_d)])
      else configs w)
   \<and> calls (snd (KubernetesSetup_handleNextStep (st_k, w))) =
     calls w @
     (if K_hasUnsavedChanges st_k
      then [ApplyConfig ''kubernetes'' (KubernetesSetup_currentConfig st_k),
            Toast ''Changes applied'' ''Kubernetes configuration has been updated successfully.'']
      else []) @ [GoToNextStep]
   \<and> configs (snd (KubernetesSetup_handleNextStep (st_k, w))) =
     (if K_hasUnsavedChanges st_k
      then applyConfig (configs w) ''kubernetes'' (KubernetesSetup_currentConfig st_k)
      else configs w)
   \<and> calls (snd (DeploymentConfig_handleNextStep (st_c, w))) =
     calls w @
     (if C_hasUnsavedChanges st_c
      then [ApplyConfig ''deploymentConfig''
              (JObj [(''envSampleFile'', C_envSampleFile st_c),
                     (''readmeFile'', C_readmeFile st_c),
                     (''documentationFile'', C_documentationFile st_c),
                     (''settings'', C_settings st_c)])]
      else []) @ [GoToNextStep]
   \<and> configs (snd (DeploymentConfig_handleNextStep (st_c, w))) =
     (if C_hasUnsavedChanges st_c
      then applyConfig (configs w) ''deploymentConfig''
             (JObj [(''envSampleFile'', C_envSampleFile st_c),
                    (''readmeFile'', C_readmeFile st_c),
                    (''documentationFile'', C_documentationFile st_c),
                    (''settings'', C_settings st_c)])
      else configs w)
   \<and> calls (snd (MonitoringSetup_handleNextStep (st_m, w))) =
     calls w @
     (if M_hasUnsavedChanges st_m
      then [ApplyConfig ''monitoringSetup''
              (JObj [(''prometheusYaml'', M_prometheusYaml st_m),
                     (''grafanaYaml'', M_grafanaYaml st_m),
                     (''dashboardJson'', M_dashboardJson st_m),
                     (''alertsYaml'', M_alertsYaml st_m),
                     (''settings'', M_settings st_m)])]
      else []) @ [GoToNextStep]
   \<and> configs (snd (MonitoringSetup_handleNextStep (st_m, w))) =
     (if M_hasUnsavedChanges st_m
      then applyConfig (configs w) ''monitoringSetup''
             (JObj [(''prometheusYaml'', M_prometheusYaml st_m),
                    (''grafanaYaml'', M_grafanaYaml st_m),
                    (''dashboardJson'', M_dashboardJson st_m),
                    (''alertsYaml'', M_alertsYaml st_m),
                    (''settings'', M_settings st_m)])
      else configs w)
   \<and> calls (snd (RepositorySetup_step ContinueClicked (st_r, w))) = calls w @ [GoToNextStep]
   \<and> configs (snd (RepositorySetup_step ContinueClicked (st_r, w))) = configs w"
  by (simp add: handleNextStep_defs handleApplyChanges_defs world_simps Let_def)

theorem handleNextStep_applies_once_witness:
  "calls (snd (JenkinsfileSetup_handleNextStep
      (JenkinsfileSetup_init initial_configs, initial_world))) = [GoToNextStep]
   \<and> configs (snd (JenkinsfileSetup_handleNextStep
      (JenkinsfileSetup_init initial_configs, initial_world))) = []
   \<and> calls (snd (JenkinsfileSetup_handleNextStep
      (JenkinsfileSetup_mount initial_configs, initial_world))) =
       [ApplyConfig ''jenkinsfile''
          (JObj [(''jenkinsfile'', JStr defaultJenkinsfile),
                 (''vars'', JObj [(''dockerUsername'', JStr ''DOCKER_USERNAME''),
                                  (''imageName'', JStr ''go-microservice''),
                                  (''kubeConfigId'', JStr ''kubeconfig''),
                                  (''dockerCredentialsId'', JStr ''docker-credentials'')])]),
        GoToNextStep]"
  using handleNextStep_applies_once
    [of "JenkinsfileSetup_init initial_configs" initial_world]
    handleNextStep_applies_once
    [of "JenkinsfileSetup_mount initial_configs" initial_world]
  by (simp add: JenkinsfileSetup_mount_def JenkinsfileSetup_effect_def JenkinsfileSetup_init_def
      initial_configs_def initial_world_def getConfig_def obj_get_def js_or_def
      Object_prototype_def)




section \<open>Numbers as text\<close>

lemma show_nat_nonempty: "show_nat n \<noteq> []"
  by (subst show_nat.simps) simp

lemma digit_char_inj:
  "a < 10 \<Longrightarrow> b < 10 \<Longrightarrow> digit_char a = digit_char b \<Longrightarrow> a = b"
proof -
  assume a: "a < 10" and b: "b < 10" and eq: "digit_char a = digit_char b"
  have "distinct ''0123456789''" by simp
  moreover have "a < length ''0123456789''" "b < length ''0123456789''"
    using a b by simp_all
  ultimately show "a = b"
    using eq a b unfolding digit_char_def by (simp only: nth_eq_iff_index_eq if_True)
qed

lemma show_nat_small: "n < 10 \<Longrightarrow> show_nat n = [digit_char n]"
  by (subst show_nat.simps) simp

lemma show_nat_large:
  "\<not> n < 10 \<Longrightarrow> show_nat n = show_nat (n div 10) @ [digit_char (n mod 10)]"
  by (subst show_nat.simps) simp

lemma show_nat_inj: "show_nat m = show_nat n \<Longrightarrow> m = n"
proof (induction m arbitrary: n rule: show_nat.induct)
  case (1 m)
  show ?case
  proof (cases "m < 10")
    case m_small: True
    show ?thesis
    proof (cases "n < 10")
      case True
      with m_small "1.prems" show ?thesis
        by (simp add: show_nat_small digit_char_inj)
    next
      case False
      with m_small "1.prems" show_nat_nonempty [of "n div 10"] show ?thesis
        by (simp add: show_nat_small show_nat_large Cons_eq_append_conv)
    qed
  next
    case m_large: False
    show ?thesis
    proof (cases "n < 10")
      case True
      with m_large "1.prems" show_nat_nonempty [of "m div 10"] show ?thesis
        by (simp add: show_nat_small show_nat_large append_eq_Cons_conv)
    next
      case False
      with m_large "1.prems"
      have eq: "show_nat (m div 10) = show_nat (n div 10)"
        and d: "digit_char (m mod 10) = digit_char (n mod 10)"
        by (simp_all add: show_nat_large)
      from "1.IH" [OF m_large eq] have "m div 10 = n div 10" .
      moreover from d have "m mod 10 = n mod 10"
        by (intro digit_char_inj) simp_all
      ultimately show ?thesis
        by (metis div_mult_mod_eq)
    qed
  qed
qed


section \<open>Properties of the export step\<close>

lemma sample_Jenkinsfile_inj:
  "sample_Jenkinsfile u i b k c = sample_Jenkinsfile u i b' k c \<Longrightarrow> b = b'"
  unfolding sample_Jenkinsfile_def
  by (simp only: same_append_eq append_same_eq)

lemma Jenkinsfile_stored:
  "truthy (obj_get cfgs ''jenkinsfile'')
     \<and> truthy (js_get (obj_get cfgs ''jenkinsfile'') ''jenkinsfile'') \<Longrightarrow>
   generateSampleContent cfgs r ''Jenkinsfile'' t =
     js_get (obj_get cfgs ''jenkinsfile'') ''jenkinsfile''"
  by (simp add: generateSampleContent_def)

lemma Jenkinsfile_fallback:
  "\<not> (truthy (obj_get cfgs ''jenkinsfile'')
       \<and> truthy (js_get (obj_get cfgs ''jenkinsfile'') ''jenkinsfile'')) \<Longrightarrow>
   generateSampleContent cfgs r ''Jenkinsfile'' t =
     JStr (sample_Jenkinsfile
             (jenkinsfile_var cfgs ''dockerUsername'' ''DOCKER_USERNAME'')
             (jenkinsfile_var cfgs ''imageName'' ''go-microservice'')
             (show_nat (r + 1))
             (jenkinsfile_var cfgs ''kubeConfigId'' ''kubeconfig'')
             (jenkinsfile_var cfgs ''dockerCredentialsId'' ''docker-credentials''))"
  by (cases "truthy (obj_get cfgs ''jenkinsfile'')";
      cases "truthy (js_get (obj_get cfgs ''jenkinsfile'') ''jenkinsfile'')")
     (simp_all add: generateSampleContent_def)

lemma Jenkinsfile_fallback_inj:
  assumes "\<not> (truthy (obj_get cfgs ''jenkinsfile'')
       \<and> truthy (js_get (obj_get cfgs ''jenkinsfile'') ''jenkinsfile''))"
    and "generateSampleContent cfgs r ''Jenkinsfile'' t =
         generateSampleContent cfgs r' ''Jenkinsfile'' t"
  shows "r = r'"
proof -
  from assms(2) have "JStr (sample_Jenkinsfile
             (jenkinsfile_var cfgs ''dockerUsername'' ''DOCKER_USERNAME'')
             (jenkinsfile_var cfgs ''imageName'' ''go-microservice'')
             (show_nat (r + 1))
             (jenkinsfile_var cfgs ''kubeConfigId'' ''kubeconfig'')
             (jenkinsfile_var cfgs ''dockerCredentialsId'' ''docker-credentials''))
       = JStr (sample_Jenkinsfile
             (jenkinsfile_var cfgs ''dockerUsername'' ''DOCKER_USERNAME'')
             (jenkinsfile_var cfgs ''imageName'' ''go-microservice'')
             (show_nat (r' + 1))
             (jenkinsfile_var cfgs ''kubeConfigId'' ''kubeconfig'')
             (jenkinsfile_var cfgs ''dockerCredentialsId'' ''docker-credentials''))"
    by (simp only: Jenkinsfile_fallback [OF assms(1)])
  then have "show_nat (r + 1) = show_nat (r' + 1)"
    by (simp only: jsval.inject) (rule sample_Jenkinsfile_inj)
  then show ?thesis
    using show_nat_inj by fastforce
qed

text \<open>
  C10, as the code has it.  The exported pipeline script is the same for all random
  draws exactly when the store holds a truthy (for a text: non-empty) buffer under
  \<open>jenkinsfile.jenkinsfile\<close>.  Then the export is that buffer; otherwise two exports
  over the same store that draw different numbers differ.
\<close>

theorem Jenkinsfile_export_deterministic_iff:
  "((\<forall>r r'. generateSampleContent cfgs r ''Jenkinsfile'' t =
             generateSampleContent cfgs r' ''Jenkinsfile'' t)
      \<longleftrightarrow> truthy (obj_get cfgs ''jenkinsfile'')
           \<and> truthy (js_get (obj_get cfgs ''jenkinsfile'') ''jenkinsfile''))
   \<and> (truthy (obj_get cfgs ''jenkinsfile'')
        \<and> truthy (js_get (obj_get cfgs ''jenkinsfile'') ''jenkinsfile'') \<longrightarrow>
      generateSampleContent cfgs r ''Jenkinsfile'' t =
        js_get (obj_get cfgs ''jenkinsfile'') ''jenkinsfile'')
   \<and> (\<not> (truthy (obj_get cfgs ''jenkinsfile'')
           \<and> truthy (js_get (obj_get cfgs ''jenkinsfile'') ''jenkinsfile'')) \<longrightarrow>
      r \<noteq> r' \<longrightarrow>
      generateSampleContent cfgs r ''Jenkinsfile'' t \<noteq>
        generateSampleContent cfgs r' ''Jenkinsfile'' t)"
proof (intro conjI impI iffI)
  assume det: "\<forall>r r'. generateSampleContent cfgs r ''Jenkinsfile'' t =
                      generateSampleContent cfgs r' ''Jenkinsfile'' t"
  show "truthy (obj_get cfgs ''jenkinsfile'')"
  proof (rule ccontr)
    assume "\<not> truthy (obj_get cfgs ''jenkinsfile'')"
    then have "(0::nat) = 1"
      using det by (intro Jenkinsfile_fallback_inj [of cfgs 0 t 1]) simp_all
    then show False by simp
  qed
  show "truthy (js_get (obj_get cfgs ''jenkinsfile'') ''jenkinsfile'')"
  proof (rule ccontr)
    assume "\<not> truthy (js_get (obj_get cfgs ''jenkinsfile'') ''jenkinsfile'')"
    then have "(0::nat) = 1"
      using det by (intro Jenkinsfile_fallback_inj [of cfgs 0 t 1]) simp_all
    then show False by simp
  qed
next
  assume "truthy (obj_get cfgs ''jenkinsfile'')
     \<and> truthy (js_get (obj_get cfgs ''jenkinsfile'') ''jenkinsfile'')"
  then show "\<forall>r r'. generateSampleContent cfgs r ''Jenkinsfile'' t =
                    generateSampleContent cfgs r' ''Jenkinsfile'' t"
    by (simp add: Jenkinsfile_stored)
next
  assume "truthy (obj_get cfgs ''jenkinsfile'')
     \<and> truthy (js_get (obj_get cfgs ''jenkinsfile'') ''jenkinsfile'')"
  then show "generateSampleContent cfgs r ''Jenkinsfile'' t =
        js_get (obj_get cfgs ''jenkinsfile'') ''jenkinsfile''"
    by (rule Jenkinsfile_stored)
next
  assume "\<not> (truthy (obj_get cfgs ''jenkinsfile'')
           \<and> truthy (js_get (obj_get cfgs ''jenkinsfile'') ''jenkinsfile''))"
    and "r \<noteq> r'"
  then show "generateSampleContent cfgs r ''Jenkinsfile'' t \<noteq>
        generateSampleContent cfgs r' ''Jenkinsfile'' t"
    using Jenkinsfile_fallback_inj by blast
qed

lemma defaultJenkinsfile_nonempty: "defaultJenkinsfile \<noteq> []"
  by (simp add: defaultJenkinsfile_def)

lemmas store_read_defs = getConfig_def obj_get_def js_or_def Object_prototype_def
  js_opt_get_def initial_configs_def applyConfig_def

text \<open>
  C10, as it is stated, fails: after the pipeline-script step has applied an empty
  buffer, a jenkinsfile buffer is stored, and two exports over that store still differ.
\<close>

theorem Jenkinsfile_empty_buffer_counterexample:
  "configs (snd (JenkinsfileSetup_handleApplyChanges
      (JenkinsfileSetup_setJenkinsfile [] (JenkinsfileSetup_mount initial_configs),
       initial_world))) =
     [(''jenkinsfile'',
       JObj [(''jenkinsfile'', JStr []),
             (''vars'', JObj [(''dockerUsername'', JStr ''DOCKER_USERNAME''),
                              (''imageName'', JStr ''go-microservice''),
                              (''kubeConfigId'', JStr ''kubeconfig''),
                              (''dockerCredentialsId'', JStr ''docker-credentials'')])])]
   \<and> generateSampleContent
       [(''jenkinsfile'',
         JObj [(''jenkinsfile'', JStr []),
               (''vars'', JObj [(''dockerUsername'', JStr ''DOCKER_USERNAME''),
                                (''imageName'', JStr ''go-microservice''),
                                (''kubeConfigId'', JStr ''kubeconfig''),
                                (''dockerCredentialsId'', JStr ''docker-credentials'')])])]
       0 ''Jenkinsfile'' ''config''
     \<noteq> generateSampleContent
       [(''jenkinsfile'',
         JObj [(''jenkinsfile'', JStr []),
               (''vars'', JObj [(''dockerUsername'', JStr ''DOCKER_USERNAME''),
                                (''imageName'', JStr ''go-microservice''),
                                (''kubeConfigId'', JStr ''kubeconfig''),
                                (''dockerCredentialsId'', JStr ''docker-credentials'')])])]
       1 ''Jenkinsfile'' ''config''"
proof (intro conjI)
  show "configs (snd (JenkinsfileSetup_handleApplyChanges
      (JenkinsfileSetup_setJenkinsfile [] (JenkinsfileSetup_mount initial_configs),
       initial_world))) =
     [(''jenkinsfile'',
       JObj [(''jenkinsfile'', JStr []),
             (''vars'', JObj [(''dockerUsername'', JStr ''DOCKER_USERNAME''),
                              (''imageName'', JStr ''go-microservice''),
                              (''kubeConfigId'', JStr ''kubeconfig''),
                              (''dockerCredentialsId'', JStr ''docker-credentials'')])])]"
    by (simp add: JenkinsfileSetup_handleApplyChanges_def JenkinsfileSetup_setJenkinsfile_def
        JenkinsfileSetup_mount_def JenkinsfileSetup_effect_def JenkinsfileSetup_init_def
        world_simps initial_world_def store_read_defs defaultJenkinsfile_nonempty Let_def)
next
  let ?cfgs = "[(''jenkinsfile'',
         JObj [(''jenkinsfile'', JStr []),
               (''vars'', JObj [(''dockerUsername'', JStr ''DOCKER_USERNAME''),
                                (''imageName'', JStr ''go-microservice''),
                                (''kubeConfigId'', JStr ''kubeconfig''),
                                (''dockerCredentialsId'', JStr ''docker-credentials'')])])]"
  have "\<not> (truthy (obj_get ?cfgs ''jenkinsfile'')
       \<and> truthy (js_get (obj_get ?cfgs ''jenkinsfile'') ''jenkinsfile''))"
    by (simp add: obj_get_def)
  from Jenkinsfile_fallback_inj [OF this, of 0 "''config''" 1]
  show "generateSampleContent ?cfgs 0 ''Jenkinsfile'' ''config''
     \<noteq> generateSampleContent ?cfgs 1 ''Jenkinsfile'' ''config''"
    by auto
qed

theorem Jenkinsfile_export_deterministic_iff_witness:
  "generateSampleContent
     [(''jenkinsfile'', JObj [(''jenkinsfile'', JStr ''node {}''), (''vars'', JObj [])])]
     7 ''Jenkinsfile'' ''config'' = JStr ''node {}''
   \<and> generateSampleContent initial_configs 0 ''Jenkinsfile'' ''config''
       \<noteq> generateSampleContent initial_configs 1 ''Jenkinsfile'' ''config''"
  using Jenkinsfile_export_deterministic_iff
      [of "[(''jenkinsfile'', JObj [(''jenkinsfile'', JStr ''node {}''), (''vars'', JObj [])])]"
          "''config''" 7]
    Jenkinsfile_export_deterministic_iff [of initial_configs "''config''" 0 1]
  by (simp add: store_read_defs)

section \<open>What the export step reads\<close>















section \<open>Properties of the substitution rules\<close>

lemma defaultJenkinsfile_head:
  \<open>defaultJenkinsfile =
     (''pipeline {
  agent any
  
  environment {
    DOCKER_USERNAME = 'DOCKER_USERNAME'
'') @ drop 82 defaultJenkinsfile\<close>
proof -
  have \<open>take 82 defaultJenkinsfile = (''pipeline {
  agent any
  
  environment {
    DOCKER_USERNAME = 'DOCKER_USERNAME'
'')\<close>
    by (simp add: defaultJenkinsfile_def)
  then show ?thesis
    using append_take_drop_id [of 82 defaultJenkinsfile] by simp
qed

text \<open>
  C2 fails on the pipeline-script step.  The rule of \<open>dockerUsername\<close> has a string as
  its pattern, so it replaces the first occurrence only, which is the name of the
  environment variable: after the change from the default to \<open>alice\<close> the buffer
  begins with the lines below, where the stale literal still is the value assigned.
\<close>

theorem dockerUsername_replaces_first_occurrence_only:
  \<open>starts_with
     (to_string (J_jenkinsfile (JenkinsfileSetup_handleVarChange ''dockerUsername'' ''alice'' st)))
     (''pipeline {
  agent any
  
  environment {
    alice = 'DOCKER_USERNAME'
'')\<close>
proof -
  obtain t where t: \<open>defaultJenkinsfile =
     (''pipeline {
  agent any
  
  environment {
    DOCKER_USERNAME = 'DOCKER_USERNAME'
'') @ t\<close>
    using defaultJenkinsfile_head by blast
  show ?thesis
    by (simp add: JenkinsfileSetup_handleVarChange_def JenkinsfileSetup_effect_def Let_def
        replace_def replace_from.simps t)
qed










end
